theory Spec2Isabelle
  imports Main "HOL-Library.AList"
begin

section \<open>JavaScript values\<close>

text \<open>
  The values handled by \<^verbatim>\<open>lib/config.module.ts\<close> are what \<^verbatim>\<open>JSON.parse\<close>, \<^verbatim>\<open>dotenv.parse\<close>
  and \<^verbatim>\<open>process.env\<close> produce: plain data. An object is an association list of its own
  enumerable data properties in insertion order (\<^const>\<open>map_of\<close> reads a property, so the
  first binding of a key is the property). Such a value has the prototype it was created
  with; the one object that is assigned to after its creation, the validated snapshot,
  carries its prototype explicitly (\<open>plain_object\<close> below).
  A number carries an integer payload: the code only ever tests a number for being zero.
\<close>

datatype jsval =
    JUndefined
  | JNull
  | JBool bool
  | JNum int
  | JStr string
  | JArr "jsval list"
  | JObj "(string \<times> jsval) list"

type_synonym obj = "(string \<times> jsval) list"

text \<open>ToBoolean, as used by \<^verbatim>\<open>||\<close> and \<^verbatim>\<open>if (...)\<close>.\<close>

fun truthy :: "jsval \<Rightarrow> bool" where
  "truthy JUndefined = False"
| "truthy JNull = False"
| "truthy (JBool b) = b"
| "truthy (JNum n) = (n \<noteq> 0)"
| "truthy (JStr s) = (s \<noteq> [])"
| "truthy (JArr xs) = True"
| "truthy (JObj ps) = True"

text \<open>Decimal rendering of an array or string index, the property key of an element.\<close>

fun string_of_nat :: "nat \<Rightarrow> string" where
  "string_of_nat n =
     (if n < 10 then [''0123456789'' ! n]
      else string_of_nat (n div 10) @ [''0123456789'' ! (n mod 10)])"

declare string_of_nat.simps [simp del]

definition index_keys :: "nat \<Rightarrow> string list" where
  "index_keys n = map string_of_nat [0..<n]"

text \<open>
  The own enumerable properties of a value: what an object spread
  \<^verbatim>\<open>{...v}\<close>, \<^verbatim>\<open>Object.keys(v)\<close> and the source argument of \<^verbatim>\<open>Object.assign\<close> enumerate.
  A string exposes its characters and an array its elements under their indices; the other
  primitives, \<^verbatim>\<open>null\<close> and \<^verbatim>\<open>undefined\<close> expose nothing.
\<close>

fun own_props :: "jsval \<Rightarrow> obj" where
  "own_props (JObj ps) = AList.clearjunk ps"
| "own_props (JArr xs) = zip (index_keys (length xs)) xs"
| "own_props (JStr s) = zip (index_keys (length s)) (map (\<lambda>c. JStr [c]) s)"
| "own_props v = []"

text \<open>\<^verbatim>\<open>target[k] = v\<close> on a plain object.\<close>

definition set_prop :: "string \<Rightarrow> 'v \<Rightarrow> (string \<times> 'v) list \<Rightarrow> (string \<times> 'v) list" where
  "set_prop k v ps = AList.update k v ps"

text \<open>
  Copying a list of properties onto a target as own properties, in order and each key
  once: the body of an object spread, and of \<^verbatim>\<open>Object.assign\<close> where no key is
  \<^verbatim>\<open>__proto__\<close>. The copy is shallow: a value is stored whole.
\<close>

definition assign_props :: "(string \<times> 'v) list \<Rightarrow> (string \<times> 'v) list \<Rightarrow> (string \<times> 'v) list" where
  "assign_props target src = fold (\<lambda>(k, v). set_prop k v) (AList.clearjunk src) target"

text \<open>\<^verbatim>\<open>json?.data\<close>: only a plain object can carry a property named \<^verbatim>\<open>data\<close>.\<close>

fun prop_data :: "jsval \<Rightarrow> jsval" where
  "prop_data (JObj ps) = (case map_of ps ''data'' of Some v \<Rightarrow> v | None \<Rightarrow> JUndefined)"
| "prop_data v = JUndefined"

section \<open>Errors, the file system and the libraries\<close>

datatype error =
    ReadError string
  | TypeError
  | Error string
  | Thrown string

text \<open>
  A path names nothing, a file that can be read, or an entry whose read throws (a directory,
  a file without read permission).
\<close>

datatype fsnode = File string | Unreadable

type_synonym filesystem = "string \<Rightarrow> fsnode option"

definition existsSync :: "filesystem \<Rightarrow> string \<Rightarrow> bool" where
  "existsSync fs p = (fs p \<noteq> None)"

definition readFileSync :: "filesystem \<Rightarrow> string \<Rightarrow> error + string" where
  "readFileSync fs p = (case fs p of Some (File c) \<Rightarrow> Inr c | _ \<Rightarrow> Inl (ReadError p))"

type_synonym penv = "(string \<times> string) list"

text \<open>
  The library functions the module calls are parameters of the model:
  \<^verbatim>\<open>JSON.parse\<close> (\<open>None\<close> is the thrown \<^verbatim>\<open>SyntaxError\<close>), \<^verbatim>\<open>dotenv.parse\<close>,
  \<^verbatim>\<open>dotenvExpand\<close> (which may read and write \<^verbatim>\<open>process.env\<close>; its \<^verbatim>\<open>parsed\<close> result may be
  missing), the conversion to a string that \<^verbatim>\<open>process.env\<close> applies to an assigned value,
  and \<^verbatim>\<open>resolve(process.cwd(), '.env')\<close>. Two more describe \<^verbatim>\<open>process.env\<close> itself, whose
  variables are the association list \<open>penv\<close>: \<open>env_inherits\<close> holds of the names the object
  inherits from its prototype (\<^verbatim>\<open>toString\<close>, \<^verbatim>\<open>constructor\<close>, \<^verbatim>\<open>__proto__\<close>, ...), which the
  \<^verbatim>\<open>in\<close> operator sees although they are no variables, and \<open>env_accepts\<close> of the names an
  assignment stores (an assignment to any other name, such as the empty one or one with
  \<^verbatim>\<open>=\<close> in it, is dropped silently).
\<close>

record runtime =
  JSON_parse :: "string \<Rightarrow> jsval option"
  dotenv_parse :: "string \<Rightarrow> (string \<times> string) list"
  dotenvExpand :: "(string \<times> string) list \<Rightarrow> penv \<Rightarrow> (string \<times> string) list option \<times> penv"
  String_of :: "jsval \<Rightarrow> string"
  default_envFilePath :: string
  env_inherits :: "string \<Rightarrow> bool"
  env_accepts :: "string \<Rightarrow> bool"

section \<open>The dynamic-file loader\<close>

text \<open>
  \<^verbatim>\<open>ConfigModule.loadDynamicFile\<close>. The path is optional; \<^verbatim>\<open>undefined\<close> and the empty
  string are falsy. The read happens before the \<^verbatim>\<open>try\<close> block, so only the parse is caught.
\<close>

definition loadDynamicFile :: "runtime \<Rightarrow> filesystem \<Rightarrow> string option \<Rightarrow> error + jsval" where
  "loadDynamicFile rt fs dynamicConfigPath =
     (case dynamicConfigPath of
        None \<Rightarrow> Inr (JObj [])
      | Some p \<Rightarrow>
          if p \<noteq> [] \<and> existsSync fs p then
            (case readFileSync fs p of
               Inl e \<Rightarrow> Inl e
             | Inr fileContent \<Rightarrow>
                 (case JSON_parse rt fileContent of
                    None \<Rightarrow> Inr (JObj [])
                  | Some json \<Rightarrow>
                      let variables = (if truthy (prop_data json) then prop_data json else json)
                      in if truthy variables then Inr variables else Inr (JObj [])))
          else Inr (JObj []))"

section \<open>Options\<close>

datatype envFilePath_option = NoEnvFilePath | OnePath string | PathArray "string list"

text \<open>
  The options of the schema validator. The module reads and writes \<^verbatim>\<open>allowUnknown\<close> and
  sets \<^verbatim>\<open>abortEarly\<close>; \<open>None\<close> is \<^verbatim>\<open>undefined\<close>. Every other option travels in
  \<open>otherOptions\<close>.
\<close>

record validation_options =
  abortEarly :: "bool option"
  allowUnknown :: "bool option"
  otherOptions :: obj

text \<open>
  \<^verbatim>\<open>ConfigModuleOptions\<close>, as far as \<^verbatim>\<open>forRoot\<close> reads it before it builds the
  providers. A validate function returns the validated object or throws; a schema's
  \<^verbatim>\<open>validate\<close> returns \<^verbatim>\<open>{error, value}\<close>, the error reduced to its message.
\<close>

record options =
  ignoreEnvFile :: bool
  ignoreEnvVars :: bool
  envFilePath :: envFilePath_option
  expandVariables :: bool
  dynamicConfigPath :: "string option"
  validate :: "(obj \<Rightarrow> error + obj) option"
  validationSchema :: "(obj \<Rightarrow> validation_options \<Rightarrow> string option \<times> obj) option"
  validationOptions :: "validation_options option"

section \<open>The env-file loader\<close>

definition envFilePaths :: "runtime \<Rightarrow> options \<Rightarrow> string list" where
  "envFilePaths rt opts =
     (case envFilePath opts of
        PathArray ps \<Rightarrow> ps
      | OnePath p \<Rightarrow> [if p \<noteq> [] then p else default_envFilePath rt]
      | NoEnvFilePath \<Rightarrow> [default_envFilePath rt])"

text \<open>
  The \<^verbatim>\<open>for\<close> loop of \<^verbatim>\<open>loadEnvFile\<close>: the accumulated \<open>config\<close> is assigned onto the
  freshly parsed file, so what is already there wins. A failing read leaves the loop with
  the exception. (A mapping made by \<^verbatim>\<open>dotenv.parse\<close> has no own property \<^verbatim>\<open>__proto__\<close>: it
  stores each line by an assignment of a string.)
\<close>

fun loadEnvFile_loop ::
  "runtime \<Rightarrow> options \<Rightarrow> filesystem \<Rightarrow> string list \<Rightarrow> (string \<times> string) list \<Rightarrow> penv
     \<Rightarrow> (error + (string \<times> string) list) \<times> penv" where
  "loadEnvFile_loop rt opts fs [] config env = (Inr config, env)"
| "loadEnvFile_loop rt opts fs (path # rest) config env =
     (if existsSync fs path then
        (case readFileSync fs path of
           Inl e \<Rightarrow> (Inl e, env)
         | Inr buf \<Rightarrow>
             (let config1 = assign_props (dotenv_parse rt buf) config in
              if expandVariables opts then
                (case dotenvExpand rt config1 env of
                   (parsed, env1) \<Rightarrow>
                     loadEnvFile_loop rt opts fs rest
                       (case parsed of Some c \<Rightarrow> c | None \<Rightarrow> config1) env1)
              else loadEnvFile_loop rt opts fs rest config1 env))
      else loadEnvFile_loop rt opts fs rest config env)"

definition loadEnvFile ::
  "runtime \<Rightarrow> options \<Rightarrow> filesystem \<Rightarrow> penv \<Rightarrow> (error + (string \<times> string) list) \<times> penv" where
  "loadEnvFile rt opts fs env = loadEnvFile_loop rt opts fs (envFilePaths rt opts) [] env"

section \<open>The process-environment sync\<close>

text \<open>\<^verbatim>\<open>util.isObject\<close>: not \<^verbatim>\<open>null\<close> and of type \<^verbatim>\<open>'object'\<close>.\<close>

fun isObject :: "jsval \<Rightarrow> bool" where
  "isObject (JObj ps) = True"
| "isObject (JArr xs) = True"
| "isObject v = False"

definition get_prop :: "jsval \<Rightarrow> string \<Rightarrow> jsval" where
  "get_prop v key = (case map_of (own_props v) key of Some x \<Rightarrow> x | None \<Rightarrow> JUndefined)"

text \<open>
  \<^verbatim>\<open>key in process.env\<close>: the name of a variable, or a name that \<^verbatim>\<open>process.env\<close> inherits.
\<close>

definition in_env :: "runtime \<Rightarrow> string \<Rightarrow> penv \<Rightarrow> bool" where
  "in_env rt key env = (key \<in> set (map fst env) \<or> env_inherits rt key)"

text \<open>
  \<^verbatim>\<open>process.env[key] = value\<close>: the string of the value is stored, if the name is one the
  environment accepts.
\<close>

definition env_assign :: "runtime \<Rightarrow> string \<Rightarrow> jsval \<Rightarrow> penv \<Rightarrow> penv" where
  "env_assign rt key v env = (if env_accepts rt key then set_prop key (String_of rt v) env else env)"

text \<open>
  \<^verbatim>\<open>ConfigModule.assignVariablesToProcess\<close>: the keys are filtered first, against the
  environment as it is on entry, and then assigned one by one.
\<close>

definition assignVariablesToProcess :: "runtime \<Rightarrow> jsval \<Rightarrow> penv \<Rightarrow> penv" where
  "assignVariablesToProcess rt config env =
     (if \<not> isObject config then env
      else
        let keys = filter (\<lambda>key. \<not> in_env rt key env) (map fst (own_props config))
        in fold (\<lambda>key e. env_assign rt key (get_prop config key) e) keys env)"

section \<open>Startup: forRoot\<close>

text \<open>A \<^verbatim>\<open>dotenv\<close> mapping or \<^verbatim>\<open>process.env\<close> seen as an object: every value is a string.\<close>

definition env_props :: "(string \<times> string) list \<Rightarrow> obj" where
  "env_props ps = map (\<lambda>(k, v). (k, JStr v)) ps"

text \<open>
  The first lines of \<^verbatim>\<open>forRoot\<close>, up to the merged \<open>config\<close>: the env files (unless
  ignored), the dynamic file, and the spread
  \<^verbatim>\<open>{...config, ...process.env, ...dynamicConfig}\<close> unless \<^verbatim>\<open>ignoreEnvVars\<close> is set.
  The second component is \<^verbatim>\<open>process.env\<close> as these lines leave it.
\<close>

definition envFileConfig ::
  "runtime \<Rightarrow> options \<Rightarrow> filesystem \<Rightarrow> penv \<Rightarrow> (error + (string \<times> string) list) \<times> penv" where
  "envFileConfig rt opts fs env =
     (if ignoreEnvFile opts then (Inr [], env) else loadEnvFile rt opts fs env)"

definition forRoot_config ::
  "runtime \<Rightarrow> options \<Rightarrow> filesystem \<Rightarrow> penv \<Rightarrow> (error + obj) \<times> penv" where
  "forRoot_config rt opts fs env =
     (case envFileConfig rt opts fs env of
        (Inl e, env1) \<Rightarrow> (Inl e, env1)
      | (Inr config, env1) \<Rightarrow>
          (case loadDynamicFile rt fs (dynamicConfigPath opts) of
             Inl e \<Rightarrow> (Inl e, env1)
           | Inr dynamicConfig \<Rightarrow>
               if \<not> ignoreEnvVars opts then
                 (Inr (assign_props
                         (assign_props (assign_props [] (env_props config)) (env_props env1))
                         (own_props dynamicConfig)),
                  env1)
               else (Inr (env_props config), env1)))"

text \<open>
  \<^verbatim>\<open>ConfigModule.getSchemaValidationOptions\<close>. (The source also stores the defaulted
  \<^verbatim>\<open>allowUnknown\<close> back into the caller's options object; only the returned options are
  read afterwards.)
\<close>

definition getSchemaValidationOptions :: "options \<Rightarrow> validation_options" where
  "getSchemaValidationOptions opts =
     (case validationOptions opts of
        Some vo \<Rightarrow>
          (if allowUnknown vo = None then vo\<lparr>allowUnknown := Some True\<rparr> else vo)
      | None \<Rightarrow> \<lparr>abortEarly = Some False, allowUnknown = Some True, otherOptions = []\<rparr>)"

text \<open>
  What \<^verbatim>\<open>forRoot\<close> returns, as far as the configuration is concerned: the provider
  \<^verbatim>\<open>VALIDATED_ENV_LOADER\<close>, pushed only for a truthy \<^verbatim>\<open>validatedEnvConfig\<close> (an object is
  always truthy) and holding that object, and the provider of \<^verbatim>\<open>DYNAMIC_CONFIG_PATH\<close>.
  The providers built from \<^verbatim>\<open>options.load\<close> belong to the container and are left out.
\<close>

record DynamicModule =
  validatedEnvConfigLoader :: "obj option"
  DYNAMIC_CONFIG_PATH :: "string option"

text \<open>
  \<^verbatim>\<open>ConfigModule.forRoot\<close>: the outcome (the exception thrown, or the module) and
  \<^verbatim>\<open>process.env\<close> afterwards.
\<close>

definition forRoot ::
  "runtime \<Rightarrow> options \<Rightarrow> filesystem \<Rightarrow> penv \<Rightarrow> (error + DynamicModule) \<times> penv" where
  "forRoot rt opts fs env =
     (case forRoot_config rt opts fs env of
        (Inl e, env1) \<Rightarrow> (Inl e, env1)
      | (Inr config, env1) \<Rightarrow>
          (case validate opts of
             Some f \<Rightarrow>
               (case f config of
                  Inl e \<Rightarrow> (Inl e, env1)
                | Inr validatedConfig \<Rightarrow>
                    (Inr \<lparr>validatedEnvConfigLoader = Some validatedConfig,
                          DYNAMIC_CONFIG_PATH = dynamicConfigPath opts\<rparr>,
                     assignVariablesToProcess rt (JObj validatedConfig) env1))
           | None \<Rightarrow>
               (case validationSchema opts of
                  Some schema \<Rightarrow>
                    (case schema config (getSchemaValidationOptions opts) of
                       (Some message, validatedConfig) \<Rightarrow>
                         (Inl (Error (''Config validation error: '' @ message)), env1)
                     | (None, validatedConfig) \<Rightarrow>
                         (Inr \<lparr>validatedEnvConfigLoader = Some validatedConfig,
                               DYNAMIC_CONFIG_PATH = dynamicConfigPath opts\<rparr>,
                          assignVariablesToProcess rt (JObj validatedConfig) env1))
                | None \<Rightarrow>
                    (Inr \<lparr>validatedEnvConfigLoader = None,
                          DYNAMIC_CONFIG_PATH = dynamicConfigPath opts\<rparr>,
                     assignVariablesToProcess rt (JObj config) env1))))"

section \<open>The host object and the watcher\<close>

text \<open>
  An object that lives on and is assigned to carries, besides its own properties, its
  prototype: \<^verbatim>\<open>Object.prototype\<close> to begin with, and later \<^verbatim>\<open>null\<close> or a value installed
  through \<^verbatim>\<open>__proto__\<close>.
\<close>

datatype prototype = ObjectPrototype | NullPrototype | ProtoValue jsval

record plain_object =
  props :: obj
  proto :: prototype

text \<open>
  The setter of the accessor \<^verbatim>\<open>__proto__\<close> that \<^verbatim>\<open>Object.prototype\<close> defines: an object or
  \<^verbatim>\<open>null\<close> becomes the prototype of the receiver, any other value is ignored.
\<close>

fun proto_setter :: "jsval \<Rightarrow> plain_object \<Rightarrow> plain_object" where
  "proto_setter (JObj ps) t = t\<lparr>proto := ProtoValue (JObj ps)\<rparr>"
| "proto_setter (JArr xs) t = t\<lparr>proto := ProtoValue (JArr xs)\<rparr>"
| "proto_setter JNull t = t\<lparr>proto := NullPrototype\<rparr>"
| "proto_setter v t = t"

text \<open>
  Whether an assignment of \<^verbatim>\<open>__proto__\<close> to an object without that own property reaches the
  setter of \<^verbatim>\<open>Object.prototype\<close>: not below a \<^verbatim>\<open>null\<close> prototype, and not when the
  installed prototype has a data property of that name (which \<^verbatim>\<open>JSON.parse\<close> can create).
\<close>

fun reaches_proto_setter :: "prototype \<Rightarrow> bool" where
  "reaches_proto_setter ObjectPrototype = True"
| "reaches_proto_setter NullPrototype = False"
| "reaches_proto_setter (ProtoValue (JObj ps)) = (''__proto__'' \<notin> set (map fst ps))"
| "reaches_proto_setter (ProtoValue v) = True"

text \<open>
  \<^verbatim>\<open>target[k] = v\<close> with the prototype taken into account. Only \<^verbatim>\<open>__proto__\<close> is special:
  every other name the chain can hold is a writable data property, so the assignment
  stores an own property.
\<close>

definition js_set :: "string \<Rightarrow> jsval \<Rightarrow> plain_object \<Rightarrow> plain_object" where
  "js_set k v t =
     (if k = ''__proto__'' \<and> k \<notin> set (map fst (props t)) \<and> reaches_proto_setter (proto t)
      then proto_setter v t
      else t\<lparr>props := set_prop k v (props t)\<rparr>)"

text \<open>
  \<^verbatim>\<open>Object.assign(target, source)\<close> for a target that is an object: each own enumerable
  property of the source is assigned to the target, in order. The copy is shallow.
\<close>

definition Object_assign :: "plain_object \<Rightarrow> jsval \<Rightarrow> plain_object" where
  "Object_assign target source =
     fold (\<lambda>(k, v). js_set k v) (AList.clearjunk (own_props source)) target"

text \<open>
  The shared host object (\<^verbatim>\<open>CONFIGURATION_TOKEN\<close>) maps a key to a configuration object:
  what this module stores in it is always a \<^verbatim>\<open>Record<string, any>\<close>. The reserved key
  \<^verbatim>\<open>VALIDATED_ENV_PROPNAME\<close> comes from \<^verbatim>\<open>config.constants\<close> and is a parameter,
  \<open>vkey\<close>, of what follows (a name that \<^verbatim>\<open>Object.prototype\<close> does not define, so that a
  host without the key yields \<^verbatim>\<open>undefined\<close>).
\<close>

type_synonym host = "(string \<times> plain_object) list"

text \<open>
  The factory of \<^verbatim>\<open>VALIDATED_ENV_LOADER\<close>, run by the container if the provider exists.
  The validated configuration is a plain object, as the validator hands it over.
\<close>

definition run_validatedEnvConfigLoader :: "string \<Rightarrow> DynamicModule \<Rightarrow> host \<Rightarrow> host" where
  "run_validatedEnvConfigLoader vkey m h =
     (case validatedEnvConfigLoader m of
        Some validatedEnvConfig \<Rightarrow>
          set_prop vkey \<lparr>props = validatedEnvConfig, proto = ObjectPrototype\<rparr> h
      | None \<Rightarrow> h)"

record ConfigModule =
  internalConfig :: host
  injectedPath :: "string option"
  watcher :: "string option"

text \<open>The constructor: a watcher on the path exists only for a truthy path.\<close>

definition new_ConfigModule :: "host \<Rightarrow> string option \<Rightarrow> ConfigModule" where
  "new_ConfigModule h path =
     \<lparr>internalConfig = h, injectedPath = path,
      watcher = (case path of Some p \<Rightarrow> if p \<noteq> [] then Some p else None | None \<Rightarrow> None)\<rparr>"

datatype fs_event = Add string | Change string | Unlink string

text \<open>
  The callback registered for \<^verbatim>\<open>'add'\<close> and \<^verbatim>\<open>'change'\<close>: the exception it ends with, if
  any, and the module afterwards. \<^verbatim>\<open>Object.assign\<close> on an \<^verbatim>\<open>undefined\<close> target throws a
  \<^verbatim>\<open>TypeError\<close>; otherwise it changes the snapshot object in place, which is the value
  under \<open>vkey\<close> in the host.
\<close>

definition reload ::
  "runtime \<Rightarrow> string \<Rightarrow> filesystem \<Rightarrow> ConfigModule \<Rightarrow> string \<Rightarrow> error option \<times> ConfigModule" where
  "reload rt vkey fs m path =
     (case loadDynamicFile rt fs (Some path) of
        Inl e \<Rightarrow> (Some e, m)
      | Inr newConfig \<Rightarrow>
          (case map_of (internalConfig m) vkey of
             None \<Rightarrow> (Some TypeError, m)
           | Some snapshot \<Rightarrow>
               (None,
                m\<lparr>internalConfig :=
                    set_prop vkey (Object_assign snapshot newConfig) (internalConfig m)\<rparr>)))"

text \<open>An event reaching the module: without a watcher, and for other events, nothing runs.\<close>

definition on_event ::
  "runtime \<Rightarrow> string \<Rightarrow> filesystem \<Rightarrow> ConfigModule \<Rightarrow> fs_event \<Rightarrow> error option \<times> ConfigModule" where
  "on_event rt vkey fs m ev =
     (case watcher m of
        None \<Rightarrow> (None, m)
      | Some w \<Rightarrow>
          (case ev of
             Add path \<Rightarrow> reload rt vkey fs m path
           | Change path \<Rightarrow> reload rt vkey fs m path
           | Unlink path \<Rightarrow> (None, m)))"

section \<open>Reference definitions\<close>

text \<open>
  The value the specification gives a key of the env-file configuration: the one from the
  earliest listed file that exists and defines the key.
\<close>

fun earliest_defining :: "runtime \<Rightarrow> filesystem \<Rightarrow> string list \<Rightarrow> string \<Rightarrow> string option" where
  "earliest_defining rt fs [] k = None"
| "earliest_defining rt fs (p # ps) k =
     (case fs p of
        Some (File c) \<Rightarrow>
          (case map_of (dotenv_parse rt c) k of
             Some v \<Rightarrow> Some v
           | None \<Rightarrow> earliest_defining rt fs ps k)
      | _ \<Rightarrow> earliest_defining rt fs ps k)"

text \<open>
  The result the specification gives the dynamic-file loader for a parsed document:
  its \<^verbatim>\<open>data\<close> property if present, else the whole document.
\<close>

definition spec_dynamic_result :: "jsval \<Rightarrow> jsval" where
  "spec_dynamic_result j =
     (case j of
        JObj ps \<Rightarrow> (case map_of ps ''data'' of Some d \<Rightarrow> d | None \<Rightarrow> j)
      | _ \<Rightarrow> j)"

text \<open>
  The snapshot the specification expects after a reload: the old one overwritten key by
  key, at top level, with the newly loaded mapping.
\<close>

definition spec_shallow_merge :: "obj \<Rightarrow> jsval \<Rightarrow> obj" where
  "spec_shallow_merge snapshot newConfig = assign_props snapshot (own_props newConfig)"

section \<open>Example data\<close>

text \<open>
  A small installation for the concrete instances below. The library functions are
  tabulated on the texts that occur: \<open>example_JSON_parse\<close> knows five JSON documents (among
  them the two of the end-to-end test, without white space) and rejects the malformed
  text \<^verbatim>\<open>{\<close>; \<open>example_dotenv_parse\<close> knows two env files. \<open>example_dotenvExpand\<close> does
  what \<^verbatim>\<open>dotenv-expand\<close> does to values without references: a variable of \<^verbatim>\<open>process.env\<close>
  takes the place of the file's value, and the outcome is written to \<^verbatim>\<open>process.env\<close>.
\<close>

definition quoted :: "string \<Rightarrow> string" where
  "quoted s = CHR 0x22 # s @ [CHR 0x22]"

definition json_port_8888 :: string where
  "json_port_8888 = ''{'' @ quoted ''data'' @ '':{'' @ quoted ''PORT'' @ '':8888}}''"

definition json_port_9999 :: string where
  "json_port_9999 = ''{'' @ quoted ''data'' @ '':{'' @ quoted ''PORT'' @ '':9999}}''"

definition json_data_zero :: string where
  "json_data_zero = ''{'' @ quoted ''data'' @ '':0}''"

definition json_proto :: string where
  "json_proto =
     ''{'' @ quoted ''data'' @ '':{'' @ quoted ''__proto__'' @ '':{'' @ quoted ''ADMIN''
       @ '':true}}}''"

definition example_JSON_parse :: "string \<Rightarrow> jsval option" where
  "example_JSON_parse s =
     (if s = json_port_8888 then Some (JObj [(''data'', JObj [(''PORT'', JNum 8888)])])
      else if s = json_port_9999 then Some (JObj [(''data'', JObj [(''PORT'', JNum 9999)])])
      else if s = json_data_zero then Some (JObj [(''data'', JNum 0)])
      else if s = json_proto
        then Some (JObj [(''data'', JObj [(''__proto__'', JObj [(''ADMIN'', JBool True)])])])
      else if s = ''null'' then Some JNull
      else None)"

definition env_file_local :: string where
  "env_file_local = ''PORT=4000''"

definition env_file_default :: string where
  "env_file_default = ''PORT=5000'' @ [CHR 0x0A] @ ''HOST=example'' @ [CHR 0x0A] @ ''MODE=dev''"

definition example_dotenv_parse :: "string \<Rightarrow> (string \<times> string) list" where
  "example_dotenv_parse s =
     (if s = env_file_local then [(''PORT'', ''4000'')]
      else if s = env_file_default
        then [(''PORT'', ''5000''), (''HOST'', ''example''), (''MODE'', ''dev'')]
      else [])"

fun join_comma :: "string list \<Rightarrow> string" where
  "join_comma [] = []"
| "join_comma [s] = s"
| "join_comma (s # t # ss) = s @ CHR '','' # join_comma (t # ss)"

fun example_String_of :: "jsval \<Rightarrow> string" where
  "example_String_of (JStr s) = s"
| "example_String_of (JNum n) =
     (if 0 \<le> n then string_of_nat (nat n) else CHR ''-'' # string_of_nat (nat (- n)))"
| "example_String_of (JBool b) = (if b then ''true'' else ''false'')"
| "example_String_of JNull = ''null''"
| "example_String_of JUndefined = ''undefined''"
| "example_String_of (JObj ps) = ''[object Object]''"
| "example_String_of (JArr xs) =
     join_comma
       (map (\<lambda>x. if x = JNull \<or> x = JUndefined then [] else example_String_of x) xs)"

definition example_dotenvExpand ::
  "(string \<times> string) list \<Rightarrow> penv \<Rightarrow> (string \<times> string) list option \<times> penv" where
  "example_dotenvExpand parsed env =
     (let expanded = map (\<lambda>(k, v). (k, case map_of env k of Some e \<Rightarrow> e | None \<Rightarrow> v)) parsed
      in (Some expanded, assign_props env expanded))"

definition Object_prototype_names :: "string list" where
  "Object_prototype_names =
     [''constructor'', ''__defineGetter__'', ''__defineSetter__'', ''hasOwnProperty'',
      ''__lookupGetter__'', ''__lookupSetter__'', ''isPrototypeOf'', ''propertyIsEnumerable'',
      ''toString'', ''valueOf'', ''__proto__'', ''toLocaleString'']"

definition example_rt :: runtime where
  "example_rt =
     \<lparr>JSON_parse = example_JSON_parse, dotenv_parse = example_dotenv_parse,
      dotenvExpand = example_dotenvExpand,
      String_of = example_String_of, default_envFilePath = ''/app/.env'',
      env_inherits = (\<lambda>key. key \<in> set Object_prototype_names),
      env_accepts = (\<lambda>key. key \<noteq> [] \<and> CHR ''='' \<notin> set key)\<rparr>"

definition example_fs :: filesystem where
  "example_fs =
     [''.env.local'' \<mapsto> File env_file_local,
      ''.env'' \<mapsto> File env_file_default,
      ''dynamic.json'' \<mapsto> File json_port_8888,
      ''broken.json'' \<mapsto> File ''{'',
      ''null.json'' \<mapsto> File ''null'',
      ''zero.json'' \<mapsto> File json_data_zero,
      ''locked.json'' \<mapsto> Unreadable,
      ''.env.d'' \<mapsto> Unreadable]"

text \<open>The same tree after the dynamic file has been rewritten.\<close>

definition example_fs_rewritten :: filesystem where
  "example_fs_rewritten = example_fs(''dynamic.json'' \<mapsto> File json_port_9999)"

text \<open>The same tree with a dynamic file that carries the key \<^verbatim>\<open>__proto__\<close>.\<close>

definition example_fs_proto :: filesystem where
  "example_fs_proto = example_fs(''dynamic.json'' \<mapsto> File json_proto)"

definition example_env :: penv where
  "example_env = [(''HOME'', ''/root''), (''HOST'', ''localhost'')]"

text \<open>An environment that also exports \<^verbatim>\<open>PORT\<close>.\<close>

definition example_env_port :: penv where
  "example_env_port = (''PORT'', ''3000'') # example_env"

definition example_schema :: "obj \<Rightarrow> validation_options \<Rightarrow> string option \<times> obj" where
  "example_schema config vo =
     (if map_of config ''DATABASE'' = None
      then (Some (quoted ''DATABASE'' @ '' is required''), config)
      else (None, config))"

definition example_opts :: options where
  "example_opts =
     \<lparr>ignoreEnvFile = False, ignoreEnvVars = False,
      envFilePath = PathArray [''.env.local'', ''.env.missing'', ''.env''],
      expandVariables = False, dynamicConfigPath = Some ''dynamic.json'',
      validate = None, validationSchema = None, validationOptions = None\<rparr>"

text \<open>The same options with a directory among the env files, and with expansion on.\<close>

definition example_opts_dir :: options where
  "example_opts_dir = example_opts\<lparr>envFilePath := PathArray [''.env.local'', ''.env.d'']\<rparr>"

definition example_opts_expand :: options where
  "example_opts_expand = example_opts\<lparr>expandVariables := True\<rparr>"

definition example_opts_ignore :: options where
  "example_opts_ignore = example_opts\<lparr>ignoreEnvVars := True\<rparr>"

definition example_opts_schema :: options where
  "example_opts_schema = example_opts\<lparr>validationSchema := Some example_schema\<rparr>"

text \<open>A validate function that accepts every configuration as it is.\<close>

definition example_opts_validate :: options where
  "example_opts_validate = example_opts\<lparr>validate := Some Inr\<rparr>"

definition example_merged :: obj where
  "example_merged =
     [(''PORT'', JNum 8888), (''HOST'', JStr ''localhost''), (''MODE'', JStr ''dev''),
      (''HOME'', JStr ''/root'')]"

definition example_vkey :: string where
  "example_vkey = ''_PROCESS_ENV_VALIDATED''"

definition example_snapshot :: plain_object where
  "example_snapshot =
     \<lparr>props = [(''PORT'', JNum 8888), (''HOST'', JStr ''localhost'')], proto = ObjectPrototype\<rparr>"

definition example_module :: ConfigModule where
  "example_module = new_ConfigModule [(example_vkey, example_snapshot)] (Some ''dynamic.json'')"

lemmas example_defs =
  example_rt_def example_fs_def example_env_def example_opts_def example_schema_def
  example_JSON_parse_def example_dotenv_parse_def env_file_local_def env_file_default_def
  quoted_def json_port_8888_def json_port_9999_def json_data_zero_def json_proto_def
  example_fs_rewritten_def example_vkey_def example_module_def example_snapshot_def
  example_env_port_def example_opts_dir_def example_opts_expand_def example_dotenvExpand_def
  Object_prototype_names_def example_fs_proto_def example_opts_ignore_def
  example_opts_schema_def example_opts_validate_def example_merged_def

lemmas model_defs =
  loadDynamicFile_def existsSync_def readFileSync_def envFileConfig_def loadEnvFile_def
  envFilePaths_def assign_props_def set_prop_def env_props_def

section \<open>Properties of the object operations\<close>

lemma fold_set_prop_distinct:
  "distinct (map fst s) \<Longrightarrow>
   map_of (fold (\<lambda>(k, v). set_prop k v) s t) = map_of t ++ map_of s"
proof (induction s arbitrary: t)
  case Nil
  then show ?case by simp
next
  case (Cons p s)
  obtain k v where p: "p = (k, v)" by (cases p)
  from Cons.prems p have notin: "k \<notin> fst ` set s" and d: "distinct (map fst s)" by auto
  have "map_of s k = None" using notin by (simp add: map_of_eq_None_iff)
  then show ?case using Cons.IH[OF d, of "set_prop k v t"] p
    by (auto simp: set_prop_def update_conv' fun_eq_iff map_add_def split: option.splits)
qed

lemma map_of_assign_props: "map_of (assign_props t s) = map_of t ++ map_of s"
  unfolding assign_props_def
  using fold_set_prop_distinct[of "AList.clearjunk s" t]
  by (simp add: map_of_clearjunk)

lemma map_of_assign_props_apply:
  "map_of (assign_props t s) k = (case map_of s k of Some v \<Rightarrow> Some v | None \<Rightarrow> map_of t k)"
  by (simp add: map_of_assign_props map_add_def)

lemma map_of_env_props: "map_of (env_props ps) k = map_option JStr (map_of ps k)"
  by (induction ps) (auto simp: env_props_def)

lemma assign_props_Nil [simp]: "assign_props t [] = t"
  by (simp add: assign_props_def)

lemma props_proto_setter [simp]: "props (proto_setter v t) = props t"
  by (cases v) simp_all

lemma map_of_props_js_set:
  "k \<noteq> ''__proto__'' \<Longrightarrow>
   map_of (props (js_set k' v t)) k = (if k' = k then Some v else map_of (props t) k)"
  by (auto simp: js_set_def set_prop_def update_conv')

lemma fold_js_set_props:
  "distinct (map fst s) \<Longrightarrow> k \<noteq> ''__proto__'' \<Longrightarrow>
   map_of (props (fold (\<lambda>(k, v). js_set k v) s t)) k =
     (case map_of s k of Some v \<Rightarrow> Some v | None \<Rightarrow> map_of (props t) k)"
proof (induction s arbitrary: t)
  case Nil
  then show ?case by simp
next
  case (Cons p s)
  obtain k' v where p: "p = (k', v)" by (cases p)
  from Cons.prems p have notin: "k' \<notin> fst ` set s" and d: "distinct (map fst s)" by auto
  have none: "map_of s k' = None" using notin by (simp add: map_of_eq_None_iff)
  have step: "map_of (props (js_set k' v t)) k = (if k' = k then Some v else map_of (props t) k)"
    by (rule map_of_props_js_set[OF Cons.prems(2)])
  show ?case
  proof (cases "k' = k")
    case True
    then show ?thesis
      using Cons.IH[OF d Cons.prems(2), of "js_set k' v t"] p none step by simp
  next
    case False
    then show ?thesis
      using Cons.IH[OF d Cons.prems(2), of "js_set k' v t"] p step
      by (simp split: option.splits)
  qed
qed

lemma fold_js_set_no_proto:
  "''__proto__'' \<notin> set (map fst s) \<Longrightarrow>
   fold (\<lambda>(k, v). js_set k v) s t = t\<lparr>props := fold (\<lambda>(k, v). set_prop k v) s (props t)\<rparr>"
  by (induction s arbitrary: t) (auto simp: js_set_def)

lemma map_of_props_Object_assign:
  "k \<noteq> ''__proto__'' \<Longrightarrow>
   map_of (props (Object_assign t source)) k =
     (case map_of (own_props source) k of Some v \<Rightarrow> Some v | None \<Rightarrow> map_of (props t) k)"
  unfolding Object_assign_def
  using fold_js_set_props[of "AList.clearjunk (own_props source)" k t]
  by (simp add: map_of_clearjunk)

lemma Object_assign_no_proto:
  assumes "map_of (own_props source) ''__proto__'' = None"
  shows "Object_assign t source = t\<lparr>props := spec_shallow_merge (props t) source\<rparr>"
proof -
  have "''__proto__'' \<notin> set (map fst (AList.clearjunk (own_props source)))"
    using assms by (simp add: dom_clearjunk map_of_eq_None_iff)
  then show ?thesis
    by (simp add: Object_assign_def spec_shallow_merge_def assign_props_def fold_js_set_no_proto)
qed

lemma Object_assign_empty [simp]: "Object_assign t (JObj []) = t"
  by (simp add: Object_assign_def)

section \<open>The env-file loader: first listed file wins\<close>

lemma loadEnvFile_loop_no_expand:
  assumes "\<not> expandVariables opts"
    and "\<forall>p \<in> set ps. fs p \<noteq> Some Unreadable"
  shows "\<exists>config. loadEnvFile_loop rt opts fs ps acc env = (Inr config, env) \<and>
           (\<forall>k. map_of config k =
              (case map_of acc k of Some v \<Rightarrow> Some v | None \<Rightarrow> earliest_defining rt fs ps k))"
  using assms(2)
proof (induction ps arbitrary: acc)
  case Nil
  then show ?case by (simp split: option.splits)
next
  case (Cons p ps)
  from Cons.prems have rest: "\<forall>q \<in> set ps. fs q \<noteq> Some Unreadable" by simp
  show ?case
  proof (cases "fs p")
    case None
    then have skip: "earliest_defining rt fs (p # ps) k = earliest_defining rt fs ps k" for k
      by simp
    from None have "loadEnvFile_loop rt opts fs (p # ps) acc env =
                    loadEnvFile_loop rt opts fs ps acc env"
      by (simp add: existsSync_def)
    then show ?thesis unfolding skip using Cons.IH[OF rest, of acc] by simp
  next
    case (Some node)
    with Cons.prems obtain c where c: "fs p = Some (File c)" by (cases node) auto
    have step: "loadEnvFile_loop rt opts fs (p # ps) acc env =
                loadEnvFile_loop rt opts fs ps (assign_props (dotenv_parse rt c) acc) env"
      using c assms(1) by (simp add: existsSync_def readFileSync_def)
    have here: "earliest_defining rt fs (p # ps) k =
                (case map_of (dotenv_parse rt c) k of Some v \<Rightarrow> Some v
                 | None \<Rightarrow> earliest_defining rt fs ps k)" for k
      using c by simp
    from Cons.IH[OF rest, of "assign_props (dotenv_parse rt c) acc"]
    obtain config where
      r: "loadEnvFile_loop rt opts fs ps (assign_props (dotenv_parse rt c) acc) env
            = (Inr config, env)"
      and v: "\<And>k. map_of config k =
                (case map_of (assign_props (dotenv_parse rt c) acc) k of Some v \<Rightarrow> Some v
                 | None \<Rightarrow> earliest_defining rt fs ps k)"
      by blast
    have "map_of config k =
            (case map_of acc k of Some v \<Rightarrow> Some v
             | None \<Rightarrow> earliest_defining rt fs (p # ps) k)" for k
      unfolding v[of k] here[of k] map_of_assign_props_apply[of _ _ k]
      by (simp split: option.splits)
    then show ?thesis unfolding step using r by simp
  qed
qed

lemma loadEnvFile_loop_env_no_expand:
  "\<not> expandVariables opts \<Longrightarrow> snd (loadEnvFile_loop rt opts fs ps acc env) = env"
  by (induction ps arbitrary: acc) (auto simp: Let_def split: sum.splits)

lemma envFileConfig_env:
  "\<not> expandVariables opts \<or> ignoreEnvFile opts \<Longrightarrow> snd (envFileConfig rt opts fs env) = env"
  by (auto simp: envFileConfig_def loadEnvFile_def loadEnvFile_loop_env_no_expand)

lemma forRoot_config_env:
  "snd (forRoot_config rt opts fs env) = snd (envFileConfig rt opts fs env)"
  by (auto simp: forRoot_config_def split: prod.splits sum.splits)

lemma example_loadEnvFile:
  "loadEnvFile example_rt example_opts example_fs example_env =
     (Inr [(''PORT'', ''4000''), (''HOST'', ''example''), (''MODE'', ''dev'')], example_env)"
  by (simp add: example_defs model_defs)

lemma example_loadDynamicFile:
  "loadDynamicFile example_rt example_fs (Some ''dynamic.json'') =
     Inr (JObj [(''PORT'', JNum 8888)])"
  by (simp add: example_defs model_defs)

text \<open>
  C2 (amended). With \<^verbatim>\<open>expandVariables\<close> off and every listed path that exists readable,
  the loader returns a mapping in which a key holds the value of the earliest listed
  existing file that defines it: the loop fills a later file's keys in only where the
  accumulated configuration lacks them (second conjunct, for the loop started from any
  accumulated configuration). It then leaves \<^verbatim>\<open>process.env\<close> alone.
\<close>

theorem loadEnvFile_earliest_wins:
  assumes "\<not> expandVariables opts"
    and "\<forall>p \<in> set (envFilePaths rt opts). fs p \<noteq> Some Unreadable"
  shows "(\<exists>config. loadEnvFile rt opts fs env = (Inr config, env) \<and>
            (\<forall>k. map_of config k = earliest_defining rt fs (envFilePaths rt opts) k))
         \<and> (\<forall>ps acc. (\<forall>p \<in> set ps. fs p \<noteq> Some Unreadable) \<longrightarrow>
              (\<exists>config. loadEnvFile_loop rt opts fs ps acc env = (Inr config, env) \<and>
                 (\<forall>k. map_of config k =
                    (case map_of acc k of
                       Some v \<Rightarrow> Some v
                     | None \<Rightarrow> earliest_defining rt fs ps k))))"
proof (intro conjI allI impI)
  show "\<exists>config. loadEnvFile rt opts fs env = (Inr config, env) \<and>
            (\<forall>k. map_of config k = earliest_defining rt fs (envFilePaths rt opts) k)"
    using loadEnvFile_loop_no_expand[OF assms, of rt "[]" env]
    by (simp add: loadEnvFile_def)
next
  fix ps acc
  assume "\<forall>p \<in> set ps. fs p \<noteq> Some Unreadable"
  then show "\<exists>config. loadEnvFile_loop rt opts fs ps acc env = (Inr config, env) \<and>
                 (\<forall>k. map_of config k =
                    (case map_of acc k of
                       Some v \<Rightarrow> Some v
                     | None \<Rightarrow> earliest_defining rt fs ps k))"
    by (rule loadEnvFile_loop_no_expand[OF assms(1)])
qed

theorem loadEnvFile_earliest_wins_witness:
  "\<not> expandVariables example_opts \<and>
   envFilePaths example_rt example_opts = [''.env.local'', ''.env.missing'', ''.env''] \<and>
   example_fs ''.env.local'' = Some (File env_file_local) \<and>
   example_fs ''.env.missing'' = None \<and>
   example_fs ''.env'' = Some (File env_file_default) \<and>
   (\<exists>config. loadEnvFile example_rt example_opts example_fs example_env
                = (Inr config, example_env) \<and>
      map_of config ''PORT'' = Some ''4000'' \<and>
      map_of config ''HOST'' = Some ''example'' \<and>
      map_of config ''NAME'' = None)"
proof -
  have h1: "\<not> expandVariables example_opts" by (simp add: example_opts_def)
  have ps: "envFilePaths example_rt example_opts = [''.env.local'', ''.env.missing'', ''.env'']"
    by (simp add: envFilePaths_def example_opts_def)
  have h2: "\<forall>p \<in> set (envFilePaths example_rt example_opts). example_fs p \<noteq> Some Unreadable"
    by (simp add: ps example_fs_def)
  from loadEnvFile_earliest_wins[OF h1 h2, of example_env]
  obtain config where
    r: "loadEnvFile example_rt example_opts example_fs example_env = (Inr config, example_env)"
    and v0: "\<And>k. map_of config k =
              earliest_defining example_rt example_fs (envFilePaths example_rt example_opts) k"
    by blast
  have v: "map_of config k =
             earliest_defining example_rt example_fs [''.env.local'', ''.env.missing'', ''.env''] k"
    for k
    using v0[of k] by (simp only: ps)
  have "map_of config ''PORT'' = Some ''4000''"
    by (simp add: v example_defs)
  moreover have "map_of config ''HOST'' = Some ''example''"
    by (simp add: v example_defs)
  moreover have "map_of config ''NAME'' = None"
    by (simp add: v example_defs)
  moreover have "example_fs ''.env.local'' = Some (File env_file_local) \<and>
      example_fs ''.env.missing'' = None \<and>
      example_fs ''.env'' = Some (File env_file_default)"
    by (simp add: example_fs_def)
  ultimately show ?thesis using h1 ps r by blast
qed

text \<open>
  Outside these conditions the loader does otherwise. A listed directory makes the
  unguarded \<^verbatim>\<open>readFileSync\<close> throw, and no mapping is returned. With \<^verbatim>\<open>expandVariables\<close>
  on, the mapping is what \<^verbatim>\<open>dotenvExpand\<close> returns: here \<^verbatim>\<open>PORT\<close> is \<^verbatim>\<open>3000\<close>, the exported
  value, where the earliest file that defines it says \<^verbatim>\<open>4000\<close>.
\<close>

theorem loadEnvFile_earliest_wins_counterexample:
  "envFilePaths example_rt example_opts_dir = [''.env.local'', ''.env.d''] \<and>
   existsSync example_fs ''.env.d'' \<and>
   earliest_defining example_rt example_fs [''.env.local'', ''.env.d''] ''PORT'' = Some ''4000'' \<and>
   loadEnvFile example_rt example_opts_dir example_fs example_env
     = (Inl (ReadError ''.env.d''), example_env) \<and>
   expandVariables example_opts_expand \<and>
   envFilePaths example_rt example_opts_expand = [''.env.local'', ''.env.missing'', ''.env''] \<and>
   earliest_defining example_rt example_fs [''.env.local'', ''.env.missing'', ''.env''] ''PORT''
     = Some ''4000'' \<and>
   fst (loadEnvFile example_rt example_opts_expand example_fs example_env_port)
     = Inr [(''PORT'', ''3000''), (''HOST'', ''localhost''), (''MODE'', ''dev'')] \<and>
   map_of [(''PORT'', ''3000''), (''HOST'', ''localhost''), (''MODE'', ''dev'')] ''PORT''
     = Some ''3000''"
  by (simp add: example_defs model_defs)

section \<open>The merge at startup\<close>

text \<open>
  C1 (amended). Unless \<^verbatim>\<open>ignoreEnvVars\<close> is set, the startup configuration of \<^verbatim>\<open>forRoot\<close>
  gives every key the value of the highest source that defines it: the dynamic-file
  configuration \<open>D\<close> first, then the process environment \<open>P\<close>, then the env-file
  configuration \<open>E\<close>. \<open>P\<close> is \<^verbatim>\<open>process.env\<close> as the merge reads it, which is the environment
  on entry whenever no variable expansion has run.
\<close>

theorem forRoot_config_precedence:
  assumes "\<not> ignoreEnvVars opts"
    and "envFileConfig rt opts fs env = (Inr E, P)"
    and "loadDynamicFile rt fs (dynamicConfigPath opts) = Inr D"
  shows "\<exists>config. forRoot_config rt opts fs env = (Inr config, P) \<and>
           (\<forall>k. map_of config k =
              (case map_of (own_props D) k of
                 Some v \<Rightarrow> Some v
               | None \<Rightarrow>
                   (case map_of P k of
                      Some s \<Rightarrow> Some (JStr s)
                    | None \<Rightarrow> (case map_of E k of Some s \<Rightarrow> Some (JStr s) | None \<Rightarrow> None))))
           \<and> (\<not> expandVariables opts \<or> ignoreEnvFile opts \<longrightarrow> P = env)"
proof -
  let ?config =
    "assign_props (assign_props (assign_props [] (env_props E)) (env_props P)) (own_props D)"
  have r: "forRoot_config rt opts fs env = (Inr ?config, P)"
    using assms by (simp add: forRoot_config_def)
  have v: "map_of ?config k =
          (case map_of (own_props D) k of
             Some v \<Rightarrow> Some v
           | None \<Rightarrow>
               (case map_of P k of
                  Some s \<Rightarrow> Some (JStr s)
                | None \<Rightarrow> (case map_of E k of Some s \<Rightarrow> Some (JStr s) | None \<Rightarrow> None)))" for k
    by (simp add: map_of_assign_props_apply map_of_env_props split: option.splits)
  have e: "\<not> expandVariables opts \<or> ignoreEnvFile opts \<longrightarrow> P = env"
    using envFileConfig_env[of opts rt fs env] assms(2) by auto
  show ?thesis using r v e by blast
qed

theorem forRoot_config_precedence_witness:
  "\<not> ignoreEnvVars example_opts \<and>
   envFileConfig example_rt example_opts example_fs example_env_port =
     (Inr [(''PORT'', ''4000''), (''HOST'', ''example''), (''MODE'', ''dev'')], example_env_port) \<and>
   example_env_port = [(''PORT'', ''3000''), (''HOME'', ''/root''), (''HOST'', ''localhost'')] \<and>
   loadDynamicFile example_rt example_fs (dynamicConfigPath example_opts) =
     Inr (JObj [(''PORT'', JNum 8888)]) \<and>
   (\<exists>config. forRoot_config example_rt example_opts example_fs example_env_port
                = (Inr config, example_env_port) \<and>
      map_of config ''PORT'' = Some (JNum 8888) \<and>
      map_of config ''HOST'' = Some (JStr ''localhost'') \<and>
      map_of config ''MODE'' = Some (JStr ''dev'') \<and>
      map_of config ''HOME'' = Some (JStr ''/root''))"
proof -
  have h1: "\<not> ignoreEnvVars example_opts" by (simp add: example_opts_def)
  have h2: "envFileConfig example_rt example_opts example_fs example_env_port =
     (Inr [(''PORT'', ''4000''), (''HOST'', ''example''), (''MODE'', ''dev'')], example_env_port)"
    by (simp add: example_defs model_defs)
  have h3: "loadDynamicFile example_rt example_fs (dynamicConfigPath example_opts) =
     Inr (JObj [(''PORT'', JNum 8888)])"
    using example_loadDynamicFile by (simp add: example_opts_def)
  have e: "example_env_port = [(''PORT'', ''3000''), (''HOME'', ''/root''), (''HOST'', ''localhost'')]"
    by (simp add: example_env_port_def example_env_def)
  from forRoot_config_precedence[OF h1 h2 h3]
  obtain config where
    r: "forRoot_config example_rt example_opts example_fs example_env_port
          = (Inr config, example_env_port)"
    and v: "\<And>k. map_of config k =
              (case map_of (own_props (JObj [(''PORT'', JNum 8888)])) k of
                 Some v \<Rightarrow> Some v
               | None \<Rightarrow>
                   (case map_of example_env_port k of
                      Some s \<Rightarrow> Some (JStr s)
                    | None \<Rightarrow>
                        (case map_of [(''PORT'', ''4000''), (''HOST'', ''example''),
                                      (''MODE'', ''dev'')] k of
                           Some s \<Rightarrow> Some (JStr s) | None \<Rightarrow> None)))"
    by blast
  have "map_of config ''PORT'' = Some (JNum 8888)" by (simp add: v)
  moreover have "map_of config ''HOST'' = Some (JStr ''localhost'')"
    by (simp add: v e)
  moreover have "map_of config ''MODE'' = Some (JStr ''dev'')"
    by (simp add: v e)
  moreover have "map_of config ''HOME'' = Some (JStr ''/root'')"
    by (simp add: v e)
  ultimately show ?thesis using h1 h2 h3 r e by blast
qed

text \<open>
  With \<^verbatim>\<open>ignoreEnvVars\<close> set the merge is skipped: the dynamic file defines \<^verbatim>\<open>PORT\<close> as
  \<^verbatim>\<open>8888\<close> and the environment exports \<^verbatim>\<open>PORT\<close> and \<^verbatim>\<open>HOME\<close>, yet the startup configuration
  holds the env file's \<^verbatim>\<open>PORT\<close> and no \<^verbatim>\<open>HOME\<close>.
\<close>

theorem forRoot_config_precedence_counterexample:
  "ignoreEnvVars example_opts_ignore \<and>
   loadDynamicFile example_rt example_fs (dynamicConfigPath example_opts_ignore)
     = Inr (JObj [(''PORT'', JNum 8888)]) \<and>
   map_of (own_props (JObj [(''PORT'', JNum 8888)])) ''PORT'' = Some (JNum 8888) \<and>
   map_of example_env_port ''PORT'' = Some ''3000'' \<and>
   map_of example_env_port ''HOME'' = Some ''/root'' \<and>
   forRoot_config example_rt example_opts_ignore example_fs example_env_port =
     (Inr [(''PORT'', JStr ''4000''), (''HOST'', JStr ''example''), (''MODE'', JStr ''dev'')],
      example_env_port) \<and>
   map_of [(''PORT'', JStr ''4000''), (''HOST'', JStr ''example''), (''MODE'', JStr ''dev'')]
     ''PORT'' = Some (JStr ''4000'') \<and>
   map_of [(''PORT'', JStr ''4000''), (''HOST'', JStr ''example''), (''MODE'', JStr ''dev'')]
     ''HOME'' = None"
  by (simp add: forRoot_config_def example_defs model_defs)

text \<open>
  C10. With \<^verbatim>\<open>ignoreEnvVars\<close> set, the startup configuration is the env-file
  configuration alone, whatever the process environment holds and whatever the dynamic
  file, though loaded, contains.
\<close>

theorem forRoot_config_ignoreEnvVars:
  assumes "ignoreEnvVars opts"
    and "envFileConfig rt opts fs env = (Inr E, P)"
    and "loadDynamicFile rt fs (dynamicConfigPath opts) = Inr D"
  shows "forRoot_config rt opts fs env = (Inr (env_props E), P) \<and>
         (\<forall>k. map_of (env_props E) k = map_option JStr (map_of E k))"
  using assms by (simp add: forRoot_config_def map_of_env_props)

theorem forRoot_config_ignoreEnvVars_witness:
  "ignoreEnvVars (example_opts\<lparr>ignoreEnvVars := True\<rparr>) \<and>
   loadDynamicFile example_rt example_fs
       (dynamicConfigPath (example_opts\<lparr>ignoreEnvVars := True\<rparr>))
     = Inr (JObj [(''PORT'', JNum 8888)]) \<and>
   forRoot_config example_rt (example_opts\<lparr>ignoreEnvVars := True\<rparr>) example_fs example_env =
     (Inr [(''PORT'', JStr ''4000''), (''HOST'', JStr ''example''), (''MODE'', JStr ''dev'')],
      example_env)"
proof -
  let ?opts = "example_opts\<lparr>ignoreEnvVars := True\<rparr>"
  have h1: "ignoreEnvVars ?opts" by simp
  have h2: "envFileConfig example_rt ?opts example_fs example_env =
     (Inr [(''PORT'', ''4000''), (''HOST'', ''example''), (''MODE'', ''dev'')], example_env)"
    by (simp add: example_defs model_defs)
  have h3: "loadDynamicFile example_rt example_fs (dynamicConfigPath ?opts) =
     Inr (JObj [(''PORT'', JNum 8888)])"
    using example_loadDynamicFile by (simp add: example_opts_def)
  from forRoot_config_ignoreEnvVars[OF h1 h2 h3] h1 h3
  show ?thesis by (simp add: env_props_def)
qed


section \<open>The dynamic-file loader\<close>

text \<open>
  C3 (amended). The loader returns an empty mapping when the path is absent, empty or names
  nothing, and when the file's text fails to parse; it returns whenever the path does not
  name an entry whose read fails. The read stands before the \<^verbatim>\<open>try\<close> block: for an
  existing entry that cannot be read, the exception of \<^verbatim>\<open>readFileSync\<close> leaves the
  loader.
\<close>

theorem loadDynamicFile_raises_only_on_read:
  "(path = None \<or> path = Some [] \<or> (\<exists>p. path = Some p \<and> fs p = None)
      \<or> (\<exists>p c. path = Some p \<and> fs p = Some (File c) \<and> JSON_parse rt c = None)
     \<longrightarrow> loadDynamicFile rt fs path = Inr (JObj []))
   \<and> ((\<forall>p. path = Some p \<longrightarrow> p = [] \<or> fs p \<noteq> Some Unreadable)
     \<longrightarrow> (\<exists>v. loadDynamicFile rt fs path = Inr v))
   \<and> (\<forall>p. path = Some p \<and> p \<noteq> [] \<and> fs p = Some Unreadable
     \<longrightarrow> loadDynamicFile rt fs path = Inl (ReadError p))"
proof (intro conjI impI allI)
  assume "path = None \<or> path = Some [] \<or> (\<exists>p. path = Some p \<and> fs p = None)
      \<or> (\<exists>p c. path = Some p \<and> fs p = Some (File c) \<and> JSON_parse rt c = None)"
  then show "loadDynamicFile rt fs path = Inr (JObj [])"
    by (auto simp: loadDynamicFile_def existsSync_def readFileSync_def)
next
  assume a: "\<forall>p. path = Some p \<longrightarrow> p = [] \<or> fs p \<noteq> Some Unreadable"
  show "\<exists>v. loadDynamicFile rt fs path = Inr v"
  proof (cases path)
    case None
    then show ?thesis by (simp add: loadDynamicFile_def)
  next
    case (Some p)
    with a have "p = [] \<or> fs p \<noteq> Some Unreadable" by simp
    then show ?thesis using Some
      by (auto simp: loadDynamicFile_def existsSync_def readFileSync_def Let_def
               split: option.splits fsnode.splits)
  qed
next
  fix p assume "path = Some p \<and> p \<noteq> [] \<and> fs p = Some Unreadable"
  then show "loadDynamicFile rt fs path = Inl (ReadError p)"
    by (simp add: loadDynamicFile_def existsSync_def readFileSync_def)
qed

theorem loadDynamicFile_raises_only_on_read_witness:
  "loadDynamicFile example_rt example_fs None = Inr (JObj []) \<and>
   example_fs ''missing.json'' = None \<and>
   loadDynamicFile example_rt example_fs (Some ''missing.json'') = Inr (JObj []) \<and>
   example_fs ''broken.json'' = Some (File ''{'') \<and>
   JSON_parse example_rt ''{'' = None \<and>
   loadDynamicFile example_rt example_fs (Some ''broken.json'') = Inr (JObj []) \<and>
   example_fs ''dynamic.json'' = Some (File json_port_8888) \<and>
   (\<exists>v. loadDynamicFile example_rt example_fs (Some ''dynamic.json'') = Inr v) \<and>
   example_fs ''locked.json'' = Some Unreadable \<and>
   loadDynamicFile example_rt example_fs (Some ''locked.json'') = Inl (ReadError ''locked.json'')"
proof -
  have f1: "example_fs ''missing.json'' = None"
    and f2: "example_fs ''broken.json'' = Some (File ''{'')"
    and f3: "example_fs ''dynamic.json'' = Some (File json_port_8888)"
    and f4: "example_fs ''locked.json'' = Some Unreadable"
    by (simp_all add: example_fs_def)
  have p: "JSON_parse example_rt ''{'' = None" by (simp add: example_defs)
  have "loadDynamicFile example_rt example_fs None = Inr (JObj [])"
    using loadDynamicFile_raises_only_on_read[of None example_fs example_rt] by simp
  moreover have "loadDynamicFile example_rt example_fs (Some ''missing.json'') = Inr (JObj [])"
    using loadDynamicFile_raises_only_on_read[of "Some ''missing.json''" example_fs example_rt] f1
    by simp
  moreover have "loadDynamicFile example_rt example_fs (Some ''broken.json'') = Inr (JObj [])"
    using loadDynamicFile_raises_only_on_read[of "Some ''broken.json''" example_fs example_rt] f2 p
    by simp
  moreover have "\<exists>v. loadDynamicFile example_rt example_fs (Some ''dynamic.json'') = Inr v"
    using loadDynamicFile_raises_only_on_read[of "Some ''dynamic.json''" example_fs example_rt] f3
    by simp
  moreover have "loadDynamicFile example_rt example_fs (Some ''locked.json'')
                   = Inl (ReadError ''locked.json'')"
    using loadDynamicFile_raises_only_on_read[of "Some ''locked.json''" example_fs example_rt] f4
    by simp
  ultimately show ?thesis using f1 f2 f3 f4 p by blast
qed

text \<open>
  The loader does raise: a path that exists and cannot be read.
\<close>

theorem loadDynamicFile_raises_counterexample:
  "existsSync example_fs ''locked.json'' \<and>
   loadDynamicFile example_rt example_fs (Some ''locked.json'') = Inl (ReadError ''locked.json'')"
  by (simp add: example_fs_def loadDynamicFile_def existsSync_def readFileSync_def)

text \<open>
  C4 (amended). For a readable file whose text parses to \<open>j\<close>, the loader returns the
  \<^verbatim>\<open>data\<close> property of \<open>j\<close> if that is truthy, else \<open>j\<close> itself if \<open>j\<close> is truthy, else an
  empty mapping. So the result is the one the specification names (\<^verbatim>\<open>data\<close> if present,
  else \<open>j\<close>) exactly when that value is truthy.
\<close>

theorem loadDynamicFile_result:
  assumes "p \<noteq> []" and "fs p = Some (File c)" and "JSON_parse rt c = Some j"
  shows "loadDynamicFile rt fs (Some p) =
           Inr (if truthy (prop_data j) then prop_data j else if truthy j then j else JObj [])
         \<and> (truthy (spec_dynamic_result j) \<longrightarrow>
              loadDynamicFile rt fs (Some p) = Inr (spec_dynamic_result j))"
proof -
  have r: "loadDynamicFile rt fs (Some p) =
           Inr (if truthy (prop_data j) then prop_data j else if truthy j then j else JObj [])"
    using assms by (simp add: loadDynamicFile_def existsSync_def readFileSync_def Let_def)
  have "truthy (spec_dynamic_result j) \<Longrightarrow>
        (if truthy (prop_data j) then prop_data j else if truthy j then j else JObj [])
          = spec_dynamic_result j"
    by (cases j) (auto simp: spec_dynamic_result_def split: option.splits)
  with r show ?thesis by simp
qed

theorem loadDynamicFile_result_witness:
  "''dynamic.json'' \<noteq> [] \<and>
   example_fs ''dynamic.json'' = Some (File json_port_8888) \<and>
   JSON_parse example_rt json_port_8888 = Some (JObj [(''data'', JObj [(''PORT'', JNum 8888)])]) \<and>
   truthy (spec_dynamic_result (JObj [(''data'', JObj [(''PORT'', JNum 8888)])])) \<and>
   spec_dynamic_result (JObj [(''data'', JObj [(''PORT'', JNum 8888)])])
     = JObj [(''PORT'', JNum 8888)] \<and>
   loadDynamicFile example_rt example_fs (Some ''dynamic.json'') = Inr (JObj [(''PORT'', JNum 8888)])"
proof -
  let ?j = "JObj [(''data'', JObj [(''PORT'', JNum 8888)])]"
  have h1: "''dynamic.json'' \<noteq> []" by simp
  have h2: "example_fs ''dynamic.json'' = Some (File json_port_8888)"
    by (simp add: example_fs_def)
  have h3: "JSON_parse example_rt json_port_8888 = Some ?j"
    by (simp add: example_rt_def example_JSON_parse_def)
  have s: "spec_dynamic_result ?j = JObj [(''PORT'', JNum 8888)]"
    by (simp add: spec_dynamic_result_def)
  have t: "truthy (spec_dynamic_result ?j)" by (simp add: s)
  from loadDynamicFile_result[of "''dynamic.json''" example_fs json_port_8888 example_rt ?j,
      OF h1 h2 h3] t s
  have "loadDynamicFile example_rt example_fs (Some ''dynamic.json'')
          = Inr (JObj [(''PORT'', JNum 8888)])"
    by simp
  then show ?thesis using h1 h2 h3 s t by blast
qed

text \<open>
  Two documents on which the loader does not return what the specification names: a
  \<^verbatim>\<open>data\<close> property that is present and falsy is passed over for the whole document,
  and the document \<^verbatim>\<open>null\<close> is replaced by an empty mapping.
\<close>

theorem loadDynamicFile_data_counterexample:
  "example_fs ''zero.json'' = Some (File json_data_zero) \<and>
   JSON_parse example_rt json_data_zero = Some (JObj [(''data'', JNum 0)]) \<and>
   spec_dynamic_result (JObj [(''data'', JNum 0)]) = JNum 0 \<and>
   loadDynamicFile example_rt example_fs (Some ''zero.json'') = Inr (JObj [(''data'', JNum 0)]) \<and>
   loadDynamicFile example_rt example_fs (Some ''zero.json'')
     \<noteq> Inr (spec_dynamic_result (JObj [(''data'', JNum 0)])) \<and>
   example_fs ''null.json'' = Some (File ''null'') \<and>
   JSON_parse example_rt ''null'' = Some JNull \<and>
   spec_dynamic_result JNull = JNull \<and>
   loadDynamicFile example_rt example_fs (Some ''null.json'') = Inr (JObj []) \<and>
   loadDynamicFile example_rt example_fs (Some ''null.json'') \<noteq> Inr (spec_dynamic_result JNull)"
  by (simp add: example_defs model_defs spec_dynamic_result_def)

section \<open>The process-environment sync\<close>

lemma in_env_iff: "in_env rt k env \<longleftrightarrow> map_of env k \<noteq> None \<or> env_inherits rt k"
  by (simp add: in_env_def map_of_eq_None_iff)

lemma map_of_fold_env_assign:
  "map_of (fold (\<lambda>key e. env_assign rt key (f key) e) keys env) k =
     (if k \<in> set keys \<and> env_accepts rt k then Some (String_of rt (f k)) else map_of env k)"
  by (induction keys arbitrary: env) (auto simp: env_assign_def set_prop_def update_conv')

lemma map_of_assignVariablesToProcess:
  "map_of (assignVariablesToProcess rt config env) k =
     (case map_of env k of
        Some v \<Rightarrow> Some v
      | None \<Rightarrow>
          if isObject config \<and> k \<in> set (map fst (own_props config)) \<and>
             \<not> env_inherits rt k \<and> env_accepts rt k
          then Some (String_of rt (get_prop config k)) else None)"
  by (auto simp: assignVariablesToProcess_def Let_def map_of_fold_env_assign in_env_iff
           split: option.splits)

text \<open>
  C5. The sync sets a key of the configuration in the process environment only if the
  environment does not define it: every key defined before keeps its value, whatever the
  configuration says, and a key whose entry changes is a key of the configuration that
  was not in the environment. Conversely each key of a configuration object that is not
  in the environment (\<^verbatim>\<open>key in process.env\<close> is false) and that the environment accepts
  as a name is set, to the string of its value.
\<close>

theorem assignVariablesToProcess_keeps_env:
  "(\<forall>k v. map_of env k = Some v \<longrightarrow> map_of (assignVariablesToProcess rt config env) k = Some v)
   \<and> (\<forall>k. map_of (assignVariablesToProcess rt config env) k \<noteq> map_of env k
        \<longrightarrow> k \<in> set (map fst (own_props config)) \<and> \<not> in_env rt k env)
   \<and> (\<forall>k. isObject config \<and> k \<in> set (map fst (own_props config)) \<and> \<not> in_env rt k env
            \<and> env_accepts rt k
        \<longrightarrow> map_of (assignVariablesToProcess rt config env) k
              = Some (String_of rt (get_prop config k)))"
  by (auto simp: map_of_assignVariablesToProcess in_env_iff split: option.splits if_splits)

theorem assignVariablesToProcess_keeps_env_witness:
  "map_of example_env ''HOST'' = Some ''localhost'' \<and>
   get_prop (JObj [(''HOST'', JStr ''example''), (''PORT'', JNum 8888), (''toString'', JStr ''x'')])
     ''HOST'' = JStr ''example'' \<and>
   map_of (assignVariablesToProcess example_rt
             (JObj [(''HOST'', JStr ''example''), (''PORT'', JNum 8888), (''toString'', JStr ''x'')])
             example_env) ''HOST''
     = Some ''localhost'' \<and>
   \<not> in_env example_rt ''PORT'' example_env \<and>
   env_accepts example_rt ''PORT'' \<and>
   map_of (assignVariablesToProcess example_rt
             (JObj [(''HOST'', JStr ''example''), (''PORT'', JNum 8888), (''toString'', JStr ''x'')])
             example_env) ''PORT''
     = Some ''8888'' \<and>
   in_env example_rt ''toString'' example_env \<and>
   map_of example_env ''toString'' = None \<and>
   map_of (assignVariablesToProcess example_rt
             (JObj [(''HOST'', JStr ''example''), (''PORT'', JNum 8888), (''toString'', JStr ''x'')])
             example_env) ''toString''
     = None"
proof -
  let ?config =
    "JObj [(''HOST'', JStr ''example''), (''PORT'', JNum 8888), (''toString'', JStr ''x'')]"
  note inst = assignVariablesToProcess_keeps_env[of example_env example_rt ?config]
  have e: "map_of example_env ''HOST'' = Some ''localhost''" by (simp add: example_env_def)
  have n: "\<not> in_env example_rt ''PORT'' example_env"
    by (simp add: in_env_def example_env_def example_rt_def Object_prototype_names_def)
  have a: "env_accepts example_rt ''PORT''" by (simp add: example_rt_def)
  have o: "isObject ?config" by simp
  have k: "''PORT'' \<in> set (map fst (own_props ?config))" by simp
  have g: "String_of example_rt (get_prop ?config ''PORT'') = ''8888''"
    by (simp add: get_prop_def example_rt_def string_of_nat.simps)
  have t: "in_env example_rt ''toString'' example_env"
    by (simp add: in_env_def example_rt_def Object_prototype_names_def)
  have tn: "map_of example_env ''toString'' = None" by (simp add: example_env_def)
  have "map_of (assignVariablesToProcess example_rt ?config example_env) ''HOST'' = Some ''localhost''"
    by (rule inst[THEN conjunct1, rule_format, OF e])
  moreover have "map_of (assignVariablesToProcess example_rt ?config example_env) ''PORT''
                   = Some ''8888''"
    using inst[THEN conjunct2, THEN conjunct2, rule_format, of "''PORT''"] n o k a
    by (simp only: g simp_thms)
  moreover have "map_of (assignVariablesToProcess example_rt ?config example_env) ''toString''
                   = None"
  proof (rule ccontr)
    assume "map_of (assignVariablesToProcess example_rt ?config example_env) ''toString'' \<noteq> None"
    then have "map_of (assignVariablesToProcess example_rt ?config example_env) ''toString''
                 \<noteq> map_of example_env ''toString''"
      by (simp add: tn)
    from inst[THEN conjunct2, THEN conjunct1, rule_format, OF this] t show False by simp
  qed
  moreover have "get_prop ?config ''HOST'' = JStr ''example''"
    by (simp add: get_prop_def)
  ultimately show ?thesis using e n a t tn by blast
qed

section \<open>The validation gate\<close>

text \<open>
  C6. When a schema is the validator in force (no validate function is given) and it
  reports an error for the merged configuration, \<^verbatim>\<open>forRoot\<close> throws an \<^verbatim>\<open>Error\<close> whose
  message carries the validator's, and nothing is committed: no module is returned, hence
  no loader of the validated snapshot, and \<^verbatim>\<open>process.env\<close> is as the loading phase left
  it (untouched, when no variable expansion ran). Without explicit validation options the
  schema is called with \<^verbatim>\<open>abortEarly: false\<close> and \<^verbatim>\<open>allowUnknown: true\<close>.
\<close>

theorem forRoot_schema_failure:
  assumes "forRoot_config rt opts fs env = (Inr config, env1)"
    and "validate opts = None"
    and "validationSchema opts = Some schema"
    and "fst (schema config (getSchemaValidationOptions opts)) = Some message"
  shows "forRoot rt opts fs env = (Inl (Error (''Config validation error: '' @ message)), env1)
         \<and> (\<not> expandVariables opts \<or> ignoreEnvFile opts \<longrightarrow> env1 = env)
         \<and> (validationOptions opts = None \<longrightarrow>
              getSchemaValidationOptions opts =
                \<lparr>abortEarly = Some False, allowUnknown = Some True, otherOptions = []\<rparr>)"
proof -
  obtain vc where "schema config (getSchemaValidationOptions opts) = (Some message, vc)"
    using assms(4) by (cases "schema config (getSchemaValidationOptions opts)") auto
  then have "forRoot rt opts fs env
               = (Inl (Error (''Config validation error: '' @ message)), env1)"
    using assms(1-3) by (simp add: forRoot_def)
  moreover have "\<not> expandVariables opts \<or> ignoreEnvFile opts \<longrightarrow> env1 = env"
    using forRoot_config_env[of rt opts fs env] envFileConfig_env[of opts rt fs env] assms(1)
    by auto
  moreover have "validationOptions opts = None \<longrightarrow>
              getSchemaValidationOptions opts =
                \<lparr>abortEarly = Some False, allowUnknown = Some True, otherOptions = []\<rparr>"
    by (simp add: getSchemaValidationOptions_def)
  ultimately show ?thesis by blast
qed

theorem forRoot_schema_failure_witness:
  "forRoot_config example_rt example_opts_schema example_fs example_env
     = (Inr example_merged, example_env) \<and>
   validate example_opts_schema = None \<and>
   validationSchema example_opts_schema = Some example_schema \<and>
   validationOptions example_opts_schema = None \<and>
   expandVariables example_opts_schema = False \<and>
   getSchemaValidationOptions example_opts_schema =
     \<lparr>abortEarly = Some False, allowUnknown = Some True, otherOptions = []\<rparr> \<and>
   fst (example_schema example_merged
          \<lparr>abortEarly = Some False, allowUnknown = Some True, otherOptions = []\<rparr>)
     = Some (quoted ''DATABASE'' @ '' is required'') \<and>
   forRoot example_rt example_opts_schema example_fs example_env =
     (Inl (Error (''Config validation error: '' @ quoted ''DATABASE'' @ '' is required'')),
      example_env)"
proof -
  let ?vo = "\<lparr>abortEarly = Some False, allowUnknown = Some True, otherOptions = []\<rparr>"
  have h1: "forRoot_config example_rt example_opts_schema example_fs example_env
              = (Inr example_merged, example_env)"
    by (simp add: forRoot_config_def example_defs model_defs)
  have h2: "validate example_opts_schema = None"
    and h3: "validationSchema example_opts_schema = Some example_schema"
    and h5: "validationOptions example_opts_schema = None"
    and h6: "expandVariables example_opts_schema = False"
    by (simp_all add: example_opts_schema_def example_opts_def)
  have vo: "getSchemaValidationOptions example_opts_schema = ?vo"
    by (simp add: getSchemaValidationOptions_def h5)
  have m: "fst (example_schema example_merged ?vo) = Some (quoted ''DATABASE'' @ '' is required'')"
    by (simp add: example_schema_def example_merged_def)
  have h4: "fst (example_schema example_merged (getSchemaValidationOptions example_opts_schema))
              = Some (quoted ''DATABASE'' @ '' is required'')"
    by (simp only: vo m)
  from forRoot_schema_failure[OF h1 h2 h3 h4]
  have "forRoot example_rt example_opts_schema example_fs example_env =
     (Inl (Error (''Config validation error: '' @ quoted ''DATABASE'' @ '' is required'')),
      example_env)"
    by (rule conjunct1)
  then show ?thesis using h1 h2 h3 h5 h6 vo m by blast
qed

section \<open>The watcher\<close>

lemma reload_ok:
  assumes "map_of (internalConfig m) vkey = Some snapshot"
    and "loadDynamicFile rt fs (Some p) = Inr newConfig"
  shows "reload rt vkey fs m p =
           (None, m\<lparr>internalConfig :=
                      set_prop vkey (Object_assign snapshot newConfig) (internalConfig m)\<rparr>)"
  using assms by (simp add: reload_def)

lemma on_event_reload:
  "watcher m = Some w \<Longrightarrow> ev = Add p \<or> ev = Change p \<Longrightarrow>
   on_event rt vkey fs m ev = reload rt vkey fs m p"
  by (auto simp: on_event_def)

lemma reload_empty:
  assumes "loadDynamicFile rt fs (Some p) = Inr (JObj [])"
  shows "reload rt vkey fs m p =
           (case map_of (internalConfig m) vkey of
              None \<Rightarrow> (Some TypeError, m)
            | Some s \<Rightarrow> (None, m))"
  using assms by (simp add: reload_def set_prop_def update_triv split: option.splits)

lemma reload_raise:
  assumes "loadDynamicFile rt fs (Some p) = Inl e"
  shows "reload rt vkey fs m p = (Some e, m)"
  using assms by (simp add: reload_def)

lemma forRoot_loader_only_with_validation:
  "forRoot rt opts fs env = (Inr dm, env') \<Longrightarrow> validatedEnvConfigLoader dm \<noteq> None \<Longrightarrow>
   validate opts \<noteq> None \<or> validationSchema opts \<noteq> None"
  by (auto simp: forRoot_def split: prod.splits sum.splits option.splits)

lemma reload_no_raise_snapshot:
  "fst (reload rt vkey fs m p) = None \<Longrightarrow> map_of (internalConfig m) vkey \<noteq> None"
  by (auto simp: reload_def split: sum.splits option.splits)

lemma example_module_fields:
  "watcher example_module = Some ''dynamic.json''"
  "map_of (internalConfig example_module) example_vkey = Some example_snapshot"
  by (simp_all add: example_module_def new_ConfigModule_def)

lemma example_reloaded:
  "loadDynamicFile example_rt example_fs_rewritten (Some ''dynamic.json'')
     = Inr (JObj [(''PORT'', JNum 9999)])"
  by (simp add: example_defs model_defs)

text \<open>
  C7 (amended). On an \<^verbatim>\<open>add\<close> or \<^verbatim>\<open>change\<close> event the watcher loads the dynamic file of the
  event's path again and assigns the result onto the validated snapshot stored in the
  host. Afterwards the snapshot holds, for every top-level key other than \<^verbatim>\<open>__proto__\<close>,
  the newly loaded value if the loaded mapping has the key (the value taken whole) and
  its old value otherwise; when the loaded mapping has no key \<^verbatim>\<open>__proto__\<close>, the snapshot
  is the old one overwritten key by key with the loaded mapping, its prototype included.
  The rest of the host and of the module is unchanged.
\<close>

theorem on_event_shallow_merge:
  assumes "watcher m = Some w"
    and "ev = Add p \<or> ev = Change p"
    and "map_of (internalConfig m) vkey = Some snapshot"
    and "loadDynamicFile rt fs (Some p) = Inr newConfig"
  shows "\<exists>m' snapshot'.
           on_event rt vkey fs m ev = (None, m') \<and>
           map_of (internalConfig m') vkey = Some snapshot' \<and>
           (\<forall>k. k \<noteq> ''__proto__'' \<longrightarrow>
              map_of (props snapshot') k =
                (case map_of (own_props newConfig) k of
                   Some v \<Rightarrow> Some v
                 | None \<Rightarrow> map_of (props snapshot) k)) \<and>
           (map_of (own_props newConfig) ''__proto__'' = None \<longrightarrow>
              snapshot' = snapshot\<lparr>props := spec_shallow_merge (props snapshot) newConfig\<rparr> \<and>
              (\<forall>k. map_of (props snapshot') k =
                 (case map_of (own_props newConfig) k of
                    Some v \<Rightarrow> Some v
                  | None \<Rightarrow> map_of (props snapshot) k))) \<and>
           (\<forall>key. key \<noteq> vkey \<longrightarrow>
              map_of (internalConfig m') key = map_of (internalConfig m) key) \<and>
           watcher m' = watcher m \<and> injectedPath m' = injectedPath m"
proof -
  let ?snap = "Object_assign snapshot newConfig"
  let ?m = "m\<lparr>internalConfig := set_prop vkey ?snap (internalConfig m)\<rparr>"
  have r: "on_event rt vkey fs m ev = (None, ?m)"
    using on_event_reload[OF assms(1,2)] reload_ok[OF assms(3,4)] by simp
  have s: "map_of (internalConfig ?m) vkey = Some ?snap"
    by (simp add: set_prop_def update_conv')
  have k: "\<forall>k. k \<noteq> ''__proto__'' \<longrightarrow> map_of (props ?snap) k =
      (case map_of (own_props newConfig) k of
         Some v \<Rightarrow> Some v
       | None \<Rightarrow> map_of (props snapshot) k)"
    by (simp add: map_of_props_Object_assign)
  have n: "map_of (own_props newConfig) ''__proto__'' = None \<longrightarrow>
      ?snap = snapshot\<lparr>props := spec_shallow_merge (props snapshot) newConfig\<rparr> \<and>
      (\<forall>k. map_of (props ?snap) k =
         (case map_of (own_props newConfig) k of
            Some v \<Rightarrow> Some v
          | None \<Rightarrow> map_of (props snapshot) k))"
  proof
    assume np: "map_of (own_props newConfig) ''__proto__'' = None"
    have eq: "?snap = snapshot\<lparr>props := spec_shallow_merge (props snapshot) newConfig\<rparr>"
      by (rule Object_assign_no_proto[OF np])
    have "props ?snap = assign_props (props snapshot) (own_props newConfig)"
      by (simp add: eq spec_shallow_merge_def)
    then have "\<forall>k. map_of (props ?snap) k =
         (case map_of (own_props newConfig) k of
            Some v \<Rightarrow> Some v
          | None \<Rightarrow> map_of (props snapshot) k)"
      by (simp only: map_of_assign_props_apply simp_thms)
    with eq show "?snap = snapshot\<lparr>props := spec_shallow_merge (props snapshot) newConfig\<rparr> \<and>
      (\<forall>k. map_of (props ?snap) k =
         (case map_of (own_props newConfig) k of
            Some v \<Rightarrow> Some v
          | None \<Rightarrow> map_of (props snapshot) k))"
      by (rule conjI)
  qed
  have h: "\<forall>key. key \<noteq> vkey \<longrightarrow>
      map_of (internalConfig ?m) key = map_of (internalConfig m) key"
    by (simp add: set_prop_def update_conv')
  have w: "watcher ?m = watcher m" and i: "injectedPath ?m = injectedPath m" by simp_all
  show ?thesis
    by (rule exI[of _ ?m], rule exI[of _ ?snap]) (intro conjI r s k n h w i)
qed

theorem on_event_shallow_merge_witness:
  "watcher example_module = Some ''dynamic.json'' \<and>
   map_of (internalConfig example_module) example_vkey = Some example_snapshot \<and>
   props example_snapshot = [(''PORT'', JNum 8888), (''HOST'', JStr ''localhost'')] \<and>
   loadDynamicFile example_rt example_fs_rewritten (Some ''dynamic.json'')
     = Inr (JObj [(''PORT'', JNum 9999)]) \<and>
   map_of (own_props (JObj [(''PORT'', JNum 9999)])) ''__proto__'' = None \<and>
   (\<exists>m' snapshot'.
      on_event example_rt example_vkey example_fs_rewritten example_module
        (Change ''dynamic.json'') = (None, m') \<and>
      map_of (internalConfig m') example_vkey = Some snapshot' \<and>
      map_of (props snapshot') ''PORT'' = Some (JNum 9999) \<and>
      map_of (props snapshot') ''HOST'' = Some (JStr ''localhost'') \<and>
      proto snapshot' = ObjectPrototype)"
proof -
  have ev: "Change ''dynamic.json'' = Add ''dynamic.json'' \<or>
            Change ''dynamic.json'' = Change ''dynamic.json''" by simp
  have ps: "props example_snapshot = [(''PORT'', JNum 8888), (''HOST'', JStr ''localhost'')]"
    by (simp add: example_snapshot_def)
  have np: "map_of (own_props (JObj [(''PORT'', JNum 9999)])) ''__proto__'' = None" by simp
  from on_event_shallow_merge[OF example_module_fields(1) ev example_module_fields(2)
      example_reloaded]
  obtain m' snapshot' where
    all: "on_event example_rt example_vkey example_fs_rewritten example_module
            (Change ''dynamic.json'') = (None, m') \<and>
          map_of (internalConfig m') example_vkey = Some snapshot' \<and>
          (\<forall>k. k \<noteq> ''__proto__'' \<longrightarrow>
             map_of (props snapshot') k =
               (case map_of (own_props (JObj [(''PORT'', JNum 9999)])) k of
                  Some v \<Rightarrow> Some v
                | None \<Rightarrow> map_of (props example_snapshot) k)) \<and>
          (map_of (own_props (JObj [(''PORT'', JNum 9999)])) ''__proto__'' = None \<longrightarrow>
             snapshot' = example_snapshot
               \<lparr>props := spec_shallow_merge (props example_snapshot)
                           (JObj [(''PORT'', JNum 9999)])\<rparr> \<and>
             (\<forall>k. map_of (props snapshot') k =
                (case map_of (own_props (JObj [(''PORT'', JNum 9999)])) k of
                   Some v \<Rightarrow> Some v
                 | None \<Rightarrow> map_of (props example_snapshot) k))) \<and>
          (\<forall>key. key \<noteq> example_vkey \<longrightarrow>
             map_of (internalConfig m') key = map_of (internalConfig example_module) key) \<and>
          watcher m' = watcher example_module \<and> injectedPath m' = injectedPath example_module"
    by (elim exE) (rule that)
  note r = all[THEN conjunct1]
  note s = all[THEN conjunct2, THEN conjunct1]
  note v = all[THEN conjunct2, THEN conjunct2, THEN conjunct1, rule_format]
  note w = all[THEN conjunct2, THEN conjunct2, THEN conjunct2, THEN conjunct1, rule_format,
               OF np, THEN conjunct1]
  have port: "map_of (props snapshot') ''PORT'' = Some (JNum 9999)"
    using v[of "''PORT''"] by simp
  have host: "map_of (props snapshot') ''HOST'' = Some (JStr ''localhost'')"
    using v[of "''HOST''"] by (simp add: ps)
  have pr: "proto snapshot' = ObjectPrototype"
    by (simp add: w example_snapshot_def)
  show ?thesis
    by (intro conjI example_module_fields ps example_reloaded np)
       (rule exI[of _ m'], rule exI[of _ snapshot'], intro conjI r s port host pr)
qed

text \<open>
  A loaded mapping with the key \<^verbatim>\<open>__proto__\<close>: overwriting the old snapshot key by key would
  give it that key, but \<^verbatim>\<open>Object.assign\<close> assigns, the assignment reaches the setter of
  \<^verbatim>\<open>Object.prototype\<close>, and the snapshot keeps its keys and gets a new prototype.
\<close>

theorem on_event_shallow_merge_counterexample:
  "watcher example_module = Some ''dynamic.json'' \<and>
   map_of (internalConfig example_module) example_vkey = Some example_snapshot \<and>
   loadDynamicFile example_rt example_fs_proto (Some ''dynamic.json'')
     = Inr (JObj [(''__proto__'', JObj [(''ADMIN'', JBool True)])]) \<and>
   map_of (spec_shallow_merge (props example_snapshot)
             (JObj [(''__proto__'', JObj [(''ADMIN'', JBool True)])])) ''__proto__''
     = Some (JObj [(''ADMIN'', JBool True)]) \<and>
   on_event example_rt example_vkey example_fs_proto example_module (Change ''dynamic.json'')
     = (None,
        example_module
          \<lparr>internalConfig :=
             [(example_vkey,
               example_snapshot\<lparr>proto := ProtoValue (JObj [(''ADMIN'', JBool True)])\<rparr>)]\<rparr>) \<and>
   map_of (props (example_snapshot\<lparr>proto := ProtoValue (JObj [(''ADMIN'', JBool True)])\<rparr>))
     ''__proto__'' = None"
  by (simp add: on_event_def reload_def Object_assign_def js_set_def spec_shallow_merge_def
                new_ConfigModule_def example_defs model_defs)

text \<open>
  C8. A reload whose file holds malformed JSON, or cannot be read, leaves the module and
  with it the stored snapshot exactly as they were. For malformed JSON and a stored
  snapshot the callback ends normally; for a file that cannot be read it ends with the
  read's exception, before anything is assigned.
\<close>

theorem on_event_bad_file_keeps_snapshot:
  assumes "ev = Add p \<or> ev = Change p"
    and "fs p = Some Unreadable \<or> (\<exists>c. fs p = Some (File c) \<and> JSON_parse rt c = None)"
  shows "snd (on_event rt vkey fs m ev) = m \<and>
         ((\<exists>c. fs p = Some (File c) \<and> JSON_parse rt c = None) \<and>
            map_of (internalConfig m) vkey \<noteq> None
          \<longrightarrow> on_event rt vkey fs m ev = (None, m))"
proof (cases "watcher m")
  case None
  then show ?thesis by (simp add: on_event_def)
next
  case (Some w)
  have ev: "on_event rt vkey fs m ev = reload rt vkey fs m p"
    by (rule on_event_reload[OF Some assms(1)])
  from assms(2) show ?thesis
  proof
    assume u: "fs p = Some Unreadable"
    have "loadDynamicFile rt fs (Some p) = Inl (ReadError p) \<or>
          loadDynamicFile rt fs (Some p) = Inr (JObj [])"
      using u by (simp add: loadDynamicFile_def existsSync_def readFileSync_def)
    then show ?thesis using u ev
      by (auto simp: reload_raise reload_empty split: option.splits)
  next
    assume "\<exists>c. fs p = Some (File c) \<and> JSON_parse rt c = None"
    then have "loadDynamicFile rt fs (Some p) = Inr (JObj [])"
      by (auto simp: loadDynamicFile_def existsSync_def readFileSync_def)
    then show ?thesis using ev by (auto simp: reload_empty split: option.splits)
  qed
qed

theorem on_event_bad_file_keeps_snapshot_witness:
  "example_fs ''broken.json'' = Some (File ''{'') \<and>
   JSON_parse example_rt ''{'' = None \<and>
   map_of (internalConfig example_module) example_vkey = Some example_snapshot \<and>
   on_event example_rt example_vkey example_fs example_module (Change ''broken.json'')
     = (None, example_module) \<and>
   example_fs ''locked.json'' = Some Unreadable \<and>
   snd (on_event example_rt example_vkey example_fs example_module (Add ''locked.json''))
     = example_module"
proof -
  have f: "example_fs ''broken.json'' = Some (File ''{'')"
    and l: "example_fs ''locked.json'' = Some Unreadable"
    by (simp_all add: example_fs_def)
  have p: "JSON_parse example_rt ''{'' = None" by (simp add: example_defs)
  have e1: "Change ''broken.json'' = Add ''broken.json'' \<or>
            Change ''broken.json'' = Change ''broken.json''" by simp
  have b1: "example_fs ''broken.json'' = Some Unreadable \<or>
            (\<exists>c. example_fs ''broken.json'' = Some (File c) \<and> JSON_parse example_rt c = None)"
    using f p by blast
  have e2: "Add ''locked.json'' = Add ''locked.json'' \<or>
            Add ''locked.json'' = Change ''locked.json''" by simp
  have b2: "example_fs ''locked.json'' = Some Unreadable \<or>
            (\<exists>c. example_fs ''locked.json'' = Some (File c) \<and> JSON_parse example_rt c = None)"
    using l by blast
  have "on_event example_rt example_vkey example_fs example_module (Change ''broken.json'')
          = (None, example_module)"
    using on_event_bad_file_keeps_snapshot[where ev = "Change ''broken.json''"
        and p = "''broken.json''" and fs = example_fs and rt = example_rt
        and vkey = example_vkey and m = example_module, OF e1 b1]
      f p example_module_fields(2)
    by blast
  moreover have
    "snd (on_event example_rt example_vkey example_fs example_module (Add ''locked.json''))
       = example_module"
    using on_event_bad_file_keeps_snapshot[where ev = "Add ''locked.json''"
        and p = "''locked.json''" and fs = example_fs and rt = example_rt
        and vkey = example_vkey and m = example_module, OF e2 b2]
    by (rule conjunct1)
  ultimately show ?thesis using f l p example_module_fields(2) by blast
qed

text \<open>
  C9. The callback assigns onto the value under the reserved key of the host, and that
  key is written only by the loader that \<^verbatim>\<open>forRoot\<close> registers when a validate function
  or a schema was supplied. So for a module built from the result of \<^verbatim>\<open>forRoot\<close> with a
  dynamic configuration path, on a host that did not hold the key before, an \<^verbatim>\<open>add\<close> or
  \<^verbatim>\<open>change\<close> callback ends without an exception only if validation was configured and the
  snapshot is there.
\<close>

theorem reload_requires_validation:
  assumes "forRoot rt opts fs0 env = (Inr dm, env')"
    and "map_of h vkey = None"
    and "DYNAMIC_CONFIG_PATH dm = Some path" and "path \<noteq> []"
    and "m = new_ConfigModule (run_validatedEnvConfigLoader vkey dm h) (DYNAMIC_CONFIG_PATH dm)"
    and "ev = Add p \<or> ev = Change p"
    and "fst (on_event rt vkey fs m ev) = None"
  shows "(validate opts \<noteq> None \<or> validationSchema opts \<noteq> None) \<and>
         map_of (internalConfig m) vkey \<noteq> None"
proof -
  have w: "watcher m = Some path"
    using assms(3,4,5) by (simp add: new_ConfigModule_def)
  have "fst (reload rt vkey fs m p) = None"
    using on_event_reload[OF w assms(6), of rt vkey fs] assms(7) by simp
  then have snap: "map_of (internalConfig m) vkey \<noteq> None"
    by (rule reload_no_raise_snapshot)
  have "validatedEnvConfigLoader dm \<noteq> None"
  proof
    assume "validatedEnvConfigLoader dm = None"
    then have "internalConfig m = h"
      using assms(5) by (simp add: new_ConfigModule_def run_validatedEnvConfigLoader_def)
    with snap assms(2) show False by simp
  qed
  with assms(1) have "validate opts \<noteq> None \<or> validationSchema opts \<noteq> None"
    by (rule forRoot_loader_only_with_validation)
  with snap show ?thesis by simp
qed

theorem reload_requires_validation_witness:
  "forRoot example_rt example_opts_validate example_fs example_env =
     (Inr \<lparr>validatedEnvConfigLoader = Some example_merged,
           DYNAMIC_CONFIG_PATH = Some ''dynamic.json''\<rparr>,
      [(''HOME'', ''/root''), (''HOST'', ''localhost''), (''PORT'', ''8888''),
       (''MODE'', ''dev'')]) \<and>
   map_of ([] :: host) example_vkey = None \<and>
   fst (on_event example_rt example_vkey example_fs_rewritten
          (new_ConfigModule
             (run_validatedEnvConfigLoader example_vkey
                \<lparr>validatedEnvConfigLoader = Some example_merged,
                  DYNAMIC_CONFIG_PATH = Some ''dynamic.json''\<rparr> [])
             (Some ''dynamic.json''))
          (Change ''dynamic.json'')) = None \<and>
   validate example_opts_validate = Some Inr \<and>
   map_of (internalConfig
             (new_ConfigModule
                (run_validatedEnvConfigLoader example_vkey
                   \<lparr>validatedEnvConfigLoader = Some example_merged,
                     DYNAMIC_CONFIG_PATH = Some ''dynamic.json''\<rparr> [])
                (Some ''dynamic.json''))) example_vkey \<noteq> None"
proof -
  let ?dm = "\<lparr>validatedEnvConfigLoader = Some example_merged,
              DYNAMIC_CONFIG_PATH = Some ''dynamic.json''\<rparr>"
  let ?env = "[(''HOME'', ''/root''), (''HOST'', ''localhost''), (''PORT'', ''8888''),
               (''MODE'', ''dev'')]"
  let ?m = "new_ConfigModule (run_validatedEnvConfigLoader example_vkey ?dm [])
              (DYNAMIC_CONFIG_PATH ?dm)"
  have c: "forRoot_config example_rt example_opts_validate example_fs example_env
             = (Inr example_merged, example_env)"
    by (simp add: forRoot_config_def example_defs model_defs)
  have s: "assignVariablesToProcess example_rt (JObj example_merged) example_env = ?env"
    by (simp add: assignVariablesToProcess_def in_env_def env_assign_def get_prop_def
                  set_prop_def example_rt_def example_merged_def example_env_def
                  Object_prototype_names_def string_of_nat.simps)
  have h1: "forRoot example_rt example_opts_validate example_fs example_env = (Inr ?dm, ?env)"
    unfolding forRoot_def c
    by (simp add: example_opts_validate_def example_opts_def s)
  have h2: "map_of ([] :: host) example_vkey = None" by simp
  have h3: "DYNAMIC_CONFIG_PATH ?dm = Some ''dynamic.json''" by simp
  have h4: "''dynamic.json'' \<noteq> []" by simp
  have h6: "Change ''dynamic.json'' = Add ''dynamic.json'' \<or>
            Change ''dynamic.json'' = Change ''dynamic.json''" by simp
  have h7: "fst (on_event example_rt example_vkey example_fs_rewritten ?m
                   (Change ''dynamic.json'')) = None"
    by (simp add: on_event_def reload_def new_ConfigModule_def run_validatedEnvConfigLoader_def
                  example_reloaded set_prop_def)
  have v: "validate example_opts_validate = Some Inr"
    by (simp add: example_opts_validate_def)
  from reload_requires_validation[OF h1 h2 h3 h4 refl h6 h7]
  have "map_of (internalConfig ?m) example_vkey \<noteq> None"
    by (rule conjunct2)
  then show ?thesis using h1 h2 h7 v by simp
qed


end
